theory Spec2Isabelle
  imports Main
begin

section \<open>Data model of the provenance controller (LUAProvenance.cpp)\<close>

text \<open>
  Modelled from the spec: the struct \<open>UndoRedoItem\<close> and its member \<open>addChildItem\<close> are
  declared in LUAProvenance.h. An entry pairs the command name with the parameters before
  the call (undo) and the parameters of the call (redo); \<open>childItems\<close> is a pointer to a
  vector of entries, \<open>None\<close> for the NULL pointer. \<open>addChildItem\<close> appends one child.
  The selector of the field \<open>function\<close> is called \<open>function_name\<close>.
\<close>

datatype 'v UndoRedoItem =
  UndoRedoItem (function_name: string) (undoParams: "'v list") (redoParams: "'v list")
    (childItems: "'v UndoRedoItem list option")

definition addChildItem :: "'v UndoRedoItem \<Rightarrow> 'v UndoRedoItem \<Rightarrow> 'v UndoRedoItem" where
  "addChildItem it c =
     UndoRedoItem (function_name it) (undoParams it) (redoParams it)
       (Some ((case childItems it of None \<Rightarrow> [] | Some cs \<Rightarrow> cs) @ [c]))"

text \<open>
  The exceptions of LUAError.h that the controller throws, the failure of an \<open>assert\<close>,
  an access outside a vector, and \<open>LuaRuntimeError\<close> for an error raised by the Lua
  runtime or by a command that Lua calls. An operation either returns or throws; both
  carry the controller state at that moment, since the members keep what was written
  before a throw.
\<close>

datatype LuaError =
    LuaProvenanceReenter
  | LuaProvenanceInvalidUndo
  | LuaProvenanceInvalidRedo
  | LuaProvenanceInvalidUndoOrRedo
  | AssertionFailed
  | UndefinedBehaviour
  | LuaRuntimeError

datatype 'a outcome = Returns 'a | Throws LuaError 'a

fun andThen :: "'a outcome \<Rightarrow> ('a \<Rightarrow> 'a outcome) \<Rightarrow> 'a outcome" where
  "andThen (Returns s) f = f s"
| "andThen (Throws e s) f = Throws e s"

fun state_of :: "'a outcome \<Rightarrow> 'a" where
  "state_of (Returns s) = s"
| "state_of (Throws e s) = s"

text \<open>
  The Lua side that the controller reads and writes through \<open>mScripting\<close>: the table of a
  registered function with its metatable (whose field \<open>__call\<close> may be nil), the undo and
  redo hooks (\<open>TBL_MD_UNDO_FUNC\<close>, \<open>TBL_MD_REDO_FUNC\<close>) and the last executed parameters
  (\<open>TBL_MD_FUN_LAST_EXEC\<close>, keys \<open>0 .. n-1\<close>). A callable is named by a string. The
  values that the registered commands act on are \<open>globals\<close>.
\<close>

datatype LuaMetatable = LuaMetatable (call_field: "string option")

record 'v LuaFunTable =
  metatable :: "LuaMetatable option"
  undoFunc :: "string option"
  redoFunc :: "string option"
  lastExec :: "'v list"

record ('v, 'w) LuaScripting =
  funTables :: "string \<rightharpoonup> 'v LuaFunTable"
  globals :: 'w

record ('v, 'w) LuaProvenance =
  mEnabled :: bool
  mTemporarilyDisabled :: bool
  mStackPointer :: int
  mScripting :: "('v, 'w) LuaScripting"
  mLoggingProvenance :: bool
  mDoProvReenterException :: bool
  mProvenanceDescLogEnabled :: bool
  mUndoRedoProvenanceDisable :: bool
  mCommandDepth :: int
  mUndoRedoStack :: "'v UndoRedoItem list"
  mProvenanceDescList :: "string list"

text \<open>
  \<open>lua_call\<close> runs a callable on its arguments: the table of the function as the first
  argument when the callable is \<open>__call\<close> and not a hook, then the parameters. What it
  runs is a registered command, which may call back into the controller and may throw;
  it is a parameter of the operations that replay.
\<close>

type_synonym ('v, 'w) lua_call =
  "string \<Rightarrow> string option \<Rightarrow> 'v list \<Rightarrow> ('v, 'w) LuaProvenance
     \<Rightarrow> ('v, 'w) LuaProvenance outcome"

section \<open>Operations\<close>

definition LuaProvenance_new :: "('v, 'w) LuaScripting \<Rightarrow> ('v, 'w) LuaProvenance" where
  "LuaProvenance_new scripting =
     \<lparr> mEnabled = True, mTemporarilyDisabled = False, mStackPointer = 0,
       mScripting = scripting, mLoggingProvenance = False,
       mDoProvReenterException = True, mProvenanceDescLogEnabled = True,
       mUndoRedoProvenanceDisable = False, mCommandDepth = 0,
       mUndoRedoStack = [], mProvenanceDescList = [] \<rparr>"

definition isEnabled :: "('v, 'w) LuaProvenance \<Rightarrow> bool" where
  "isEnabled s = mEnabled s"

definition enableLogAll :: "bool \<Rightarrow> ('v, 'w) LuaProvenance \<Rightarrow> ('v, 'w) LuaProvenance" where
  "enableLogAll enabled s =
     (let s1 = s\<lparr>mProvenanceDescLogEnabled := enabled\<rparr>
      in if mProvenanceDescLogEnabled s1 = False then s1\<lparr>mProvenanceDescList := []\<rparr> else s1)"

definition clearProvenance :: "('v, 'w) LuaProvenance \<Rightarrow> ('v, 'w) LuaProvenance" where
  "clearProvenance s = s\<lparr>mUndoRedoStack := [], mStackPointer := 0\<rparr>"

definition setEnabled :: "bool \<Rightarrow> ('v, 'w) LuaProvenance \<Rightarrow> ('v, 'w) LuaProvenance" where
  "setEnabled enabled s =
     (let s1 = (if enabled = False \<and> mEnabled s = True then clearProvenance s else s)
      in s1\<lparr>mEnabled := enabled\<rparr>)"

definition ammendLastProvLog ::
  "string \<Rightarrow> ('v, 'w) LuaProvenance \<Rightarrow> ('v, 'w) LuaProvenance outcome" where
  "ammendLastProvLog ammend s =
     (if \<not> length (mProvenanceDescList s) > 0 then Throws AssertionFailed s
      else let ammendedLog = last (mProvenanceDescList s) @ ammend
           in Returns (s\<lparr>mProvenanceDescList := butlast (mProvenanceDescList s) @ [ammendedLog]\<rparr>))"

text \<open>Decimal text of an \<open>int\<close>, as \<open>ostream << int\<close> writes it.\<close>

definition digit_char :: "nat \<Rightarrow> char" where
  "digit_char d = ''0123456789'' ! d"

function showNat :: "nat \<Rightarrow> string" where
  "showNat n = (if n < 10 then [digit_char n] else showNat (n div 10) @ [digit_char (n mod 10)])"
  by pat_completeness auto
termination
  by (relation "measure (\<lambda>n. n)") auto

declare showNat.simps [simp del]

definition showInt :: "int \<Rightarrow> string" where
  "showInt i = (if i < 0 then CHR ''-'' # showNat (nat (- i)) else showNat (nat i))"

text \<open>
  The sum of the two hook counts is an \<open>int\<close> of 32 bits: outside its range the value
  wraps around (\<open>int32\<close>).
\<close>

definition int32 :: "int \<Rightarrow> int" where
  "int32 i = (i + 2147483648) mod 4294967296 - 2147483648"

definition logHooks :: "int \<Rightarrow> int \<Rightarrow> ('v, 'w) LuaProvenance \<Rightarrow> ('v, 'w) LuaProvenance outcome" where
  "logHooks staticHooks memberHooks s =
     (if mEnabled s = False \<or> mProvenanceDescLogEnabled s = False then Returns s
      else let hooksCalled = int32 (staticHooks + memberHooks)
           in ammendLastProvLog ('' -- '' @ showInt hooksCalled @ '' hook(s) called'') s)"

text \<open>
  \<open>logExecution\<close>, in the three parts of its body. The formatting of the parameters
  (\<open>getFormattedParameterValues\<close> of LuaCFunAbstract) is the parameter \<open>fmt\<close>.

  Lines 220 to 239: the description of the call, appended to the provenance record, or
  merged into its last line while a replay is in progress.
\<close>

definition logDescription ::
  "('v list \<Rightarrow> string) \<Rightarrow> string \<Rightarrow> 'v list \<Rightarrow> ('v, 'w) LuaProvenance
     \<Rightarrow> ('v, 'w) LuaProvenance outcome" where
  "logDescription fmt fname funParams s =
     (if mProvenanceDescLogEnabled s then
        let provParams = fmt funParams;
            os = (if mUndoRedoProvenanceDisable s then '' -- Called: '' @ [CHR 0x22] else [])
                 @ fname @ ''('' @ provParams @ '')'' @ '' - depth:'' @ showInt (mCommandDepth s)
        in if mUndoRedoProvenanceDisable s then ammendLastProvLog (os @ [CHR 0x22]) s
           else Returns (s\<lparr>mProvenanceDescList := mProvenanceDescList s @ [os]\<rparr>)
      else Returns s)"

text \<open>
  Lines 247 to 254: the redo history above the stack pointer is popped, one entry for each
  step of the loop, and the assertion compares the size with the stack pointer.
  \<open>pop_back\<close> on an empty vector is undefined.
\<close>

fun pop_back_n :: "nat \<Rightarrow> 'a list \<Rightarrow> 'a list outcome" where
  "pop_back_n 0 xs = Returns xs"
| "pop_back_n (Suc n) xs = (if xs = [] then Throws UndefinedBehaviour xs else pop_back_n n (butlast xs))"

definition eraseRedoHistory :: "('v, 'w) LuaProvenance \<Rightarrow> ('v, 'w) LuaProvenance outcome" where
  "eraseRedoHistory s =
     (let stackDiff = int (length (mUndoRedoStack s)) - mStackPointer s
      in case pop_back_n (nat stackDiff) (mUndoRedoStack s) of
           Throws e xs \<Rightarrow> Throws e (s\<lparr>mUndoRedoStack := xs\<rparr>)
         | Returns xs \<Rightarrow>
             let s1 = s\<lparr>mUndoRedoStack := xs\<rparr>
             in if int (length (mUndoRedoStack s1)) = mStackPointer s1 then Returns s1
                else Throws AssertionFailed s1)"

text \<open>
  Lines 256 to 324: the last executed parameters of the function are read from its table
  into \<open>emptyParams\<close> (left as it is when the table has no parameter), the entry is pushed
  or added as a child of the entry on the top of the stack, and the table is overwritten
  with the parameters of this call. Reading the field of a function that has no table is
  an error of the Lua runtime.
\<close>

definition recordUndoRedoItem ::
  "string \<Rightarrow> 'v list \<Rightarrow> 'v list \<Rightarrow> ('v, 'w) LuaProvenance \<Rightarrow> ('v, 'w) LuaProvenance outcome" where
  "recordUndoRedoItem fname funParams emptyParams s =
     (case funTables (mScripting s) fname of
        None \<Rightarrow> Throws LuaRuntimeError s
      | Some funTable \<Rightarrow>
          let numParams = length (lastExec funTable);
              emptyParams' = (if numParams \<noteq> 0 then lastExec funTable else emptyParams);
              item = UndoRedoItem fname emptyParams' funParams None
          in andThen
               (if mCommandDepth s = 0 then
                  Returns (s\<lparr>mUndoRedoStack := mUndoRedoStack s @ [item],
                             mStackPointer := mStackPointer s + 1\<rparr>)
                else if \<not> length (mUndoRedoStack s) > 0 then Throws AssertionFailed s
                else Returns (s\<lparr>mUndoRedoStack :=
                        butlast (mUndoRedoStack s) @ [addChildItem (last (mUndoRedoStack s)) item]\<rparr>))
               (\<lambda>s1. if numParams \<noteq> length funParams then Throws AssertionFailed s1
                     else Returns (s1\<lparr>mScripting := (mScripting s1)\<lparr>funTables :=
                            (funTables (mScripting s1))(fname \<mapsto> funTable\<lparr>lastExec := funParams\<rparr>)\<rparr>,
                          mLoggingProvenance := False\<rparr>)))"

definition logExecution ::
  "('v list \<Rightarrow> string) \<Rightarrow> string \<Rightarrow> bool \<Rightarrow> 'v list \<Rightarrow> 'v list \<Rightarrow> ('v, 'w) LuaProvenance
     \<Rightarrow> ('v, 'w) LuaProvenance outcome" where
  "logExecution fmt fname undoRedoStackExempt funParams emptyParams s =
     (if mTemporarilyDisabled s then Returns s
      else if mLoggingProvenance s then
        (if mDoProvReenterException s then Throws LuaProvenanceReenter s else Returns s)
      else
        andThen (logDescription fmt fname funParams (s\<lparr>mLoggingProvenance := True\<rparr>))
          (\<lambda>s1. if undoRedoStackExempt \<or> mUndoRedoProvenanceDisable s1
                then Returns (s1\<lparr>mLoggingProvenance := False\<rparr>)
                else andThen (eraseRedoHistory s1)
                       (recordUndoRedoItem fname funParams emptyParams)))"

text \<open>
  Modelled from the spec: \<open>copyParamsToTable\<close> is a member of LuaScripting, which is not
  among the sources. After the invocation the last executed parameters of the command are
  overwritten with the replayed parameters. The table was found before the call and stays
  on the Lua stack; a command that removed the function from the registry leaves nothing
  to see of the write.
\<close>

definition copyParamsToTable ::
  "string \<Rightarrow> 'v list \<Rightarrow> ('v, 'w) LuaProvenance \<Rightarrow> ('v, 'w) LuaProvenance" where
  "copyParamsToTable funcName params s =
     (case funTables (mScripting s) funcName of
        None \<Rightarrow> s
      | Some funTable \<Rightarrow>
          s\<lparr>mScripting := (mScripting s)\<lparr>funTables :=
               (funTables (mScripting s))(funcName \<mapsto> funTable\<lparr>lastExec := params\<rparr>)\<rparr>\<rparr>)"

definition performUndoRedoOp ::
  "('v, 'w) lua_call \<Rightarrow> string \<Rightarrow> 'v list \<Rightarrow> bool \<Rightarrow> ('v, 'w) LuaProvenance
     \<Rightarrow> ('v, 'w) LuaProvenance outcome" where
  "performUndoRedoOp lc funcName params isUndo s =
     (case funTables (mScripting s) funcName of
        None \<Rightarrow> Throws LuaProvenanceInvalidUndoOrRedo s
      | Some funTable \<Rightarrow>
          (case metatable funTable of
             None \<Rightarrow> Throws LuaProvenanceInvalidUndoOrRedo s
           | Some mt \<Rightarrow>
               (case (case (if isUndo then undoFunc funTable else redoFunc funTable) of
                        Some hook \<Rightarrow> Some (hook, None)
                      | None \<Rightarrow>
                          (case call_field mt of
                             None \<Rightarrow> None
                           | Some f \<Rightarrow> Some (f, Some funcName))) of
                  None \<Rightarrow> Throws LuaProvenanceInvalidUndoOrRedo s
                | Some (f, self) \<Rightarrow>
                    andThen (lc f self params (s\<lparr>mUndoRedoProvenanceDisable := True\<rparr>))
                      (\<lambda>s1. Returns (copyParamsToTable funcName params
                                        (s1\<lparr>mUndoRedoProvenanceDisable := False\<rparr>))))))"

text \<open>
  \<open>catch (LuaProvenanceInvalidUndoOrRedo& e) { throw ...(e.what(), ...); }\<close>: the typed
  handler of \<open>issueUndo\<close> and \<open>issueRedo\<close>. Every other exception passes through it.
\<close>

fun rethrowInvalidUndoOrRedo :: "LuaError \<Rightarrow> 'a outcome \<Rightarrow> 'a outcome" where
  "rethrowInvalidUndoOrRedo e' (Returns s) = Returns s"
| "rethrowInvalidUndoOrRedo e' (Throws e s) =
     (if e = LuaProvenanceInvalidUndoOrRedo then Throws e' s else Throws e s)"

text \<open>The loop of \<open>issueUndo\<close> over the children of the entry, from \<open>begin()\<close> to \<open>end()\<close>.\<close>

fun undoChildItems ::
  "('v, 'w) lua_call \<Rightarrow> 'v UndoRedoItem list \<Rightarrow> ('v, 'w) LuaProvenance
     \<Rightarrow> ('v, 'w) LuaProvenance outcome" where
  "undoChildItems lc [] s = Returns s"
| "undoChildItems lc (it # its) s =
     andThen (rethrowInvalidUndoOrRedo LuaProvenanceInvalidUndo
                (performUndoRedoOp lc (function_name it) (undoParams it) True s))
       (undoChildItems lc its)"

definition issueUndo ::
  "('v, 'w) lua_call \<Rightarrow> ('v, 'w) LuaProvenance \<Rightarrow> ('v, 'w) LuaProvenance outcome" where
  "issueUndo lc s =
     (if mStackPointer s = 0 then Throws LuaProvenanceInvalidUndo s
      else
        let undoIndex = mStackPointer s - 1
        in if undoIndex < 0 \<or> int (length (mUndoRedoStack s)) \<le> undoIndex
           then Throws UndefinedBehaviour s
           else
             let undoItem = mUndoRedoStack s ! nat undoIndex
             in andThen (rethrowInvalidUndoOrRedo LuaProvenanceInvalidUndo
                          (performUndoRedoOp lc (function_name undoItem) (undoParams undoItem) True s))
                  (\<lambda>s1. andThen
                           (case childItems undoItem of
                              None \<Rightarrow> Returns s1
                            | Some children \<Rightarrow> undoChildItems lc children s1)
                           (\<lambda>s2. Returns (s2\<lparr>mStackPointer := mStackPointer s2 - 1\<rparr>))))"

definition issueRedo ::
  "('v, 'w) lua_call \<Rightarrow> ('v, 'w) LuaProvenance \<Rightarrow> ('v, 'w) LuaProvenance outcome" where
  "issueRedo lc s =
     (if mStackPointer s = int (length (mUndoRedoStack s)) then Throws LuaProvenanceInvalidRedo s
      else
        let redoIndex = mStackPointer s
        in if redoIndex < 0 \<or> int (length (mUndoRedoStack s)) \<le> redoIndex
           then Throws UndefinedBehaviour s
           else
             let redoItem = mUndoRedoStack s ! nat redoIndex
             in andThen (rethrowInvalidUndoOrRedo LuaProvenanceInvalidRedo
                          (performUndoRedoOp lc (function_name redoItem) (redoParams redoItem) False s))
                  (\<lambda>s1. Returns (s1\<lparr>mStackPointer := mStackPointer s1 + 1\<rparr>)))"

definition enableProvReentryEx :: "bool \<Rightarrow> ('v, 'w) LuaProvenance \<Rightarrow> ('v, 'w) LuaProvenance" where
  "enableProvReentryEx enable s = s\<lparr>mDoProvReenterException := enable\<rparr>"

definition beginCommand :: "('v, 'w) LuaProvenance \<Rightarrow> ('v, 'w) LuaProvenance" where
  "beginCommand s = s\<lparr>mCommandDepth := mCommandDepth s + 1\<rparr>"

definition endCommand :: "('v, 'w) LuaProvenance \<Rightarrow> ('v, 'w) LuaProvenance" where
  "endCommand s = s\<lparr>mCommandDepth := mCommandDepth s - 1\<rparr>"

definition setDisableProvTemporarily :: "bool \<Rightarrow> ('v, 'w) LuaProvenance \<Rightarrow> ('v, 'w) LuaProvenance" where
  "setDisableProvTemporarily disable s = s\<lparr>mTemporarilyDisabled := disable\<rparr>"

section \<open>The replay order in the words of the specification\<close>

text \<open>
  The specification describes an undo as a sequence of replays: the command of the entry
  with the undo parameters of the entry, then the command of each child with the undo
  parameters of that child, first child first. \<open>undoReplayOrder\<close> is that sequence and
  \<open>performReplays\<close> runs a sequence through \<open>performUndoRedoOp\<close>, stopping at the first
  replay that throws. A redo replays the command of the entry with its redo parameters
  and nothing else (\<open>redoReplayOrder\<close>).
\<close>

definition undoReplayOrder :: "'v UndoRedoItem \<Rightarrow> (string \<times> 'v list) list" where
  "undoReplayOrder entry =
     (function_name entry, undoParams entry)
       # map (\<lambda>c. (function_name c, undoParams c))
           (case childItems entry of None \<Rightarrow> [] | Some cs \<Rightarrow> cs)"

definition redoReplayOrder :: "'v UndoRedoItem \<Rightarrow> (string \<times> 'v list) list" where
  "redoReplayOrder entry = [(function_name entry, redoParams entry)]"

fun performReplays ::
  "('v, 'w) lua_call \<Rightarrow> bool \<Rightarrow> (string \<times> 'v list) list \<Rightarrow> ('v, 'w) LuaProvenance
     \<Rightarrow> ('v, 'w) LuaProvenance outcome" where
  "performReplays lc isUndo [] s = Returns s"
| "performReplays lc isUndo ((name, params) # rest) s =
     andThen (performUndoRedoOp lc name params isUndo s) (performReplays lc isUndo rest)"

text \<open>
  The specification describes one replay as: resolve the name to its registered table;
  prefer the undo or the redo hook if the command registered one, otherwise take the
  normal callable of the command (which receives the table of the function as its first
  argument); invoke it on the parameters while the recording is suppressed; then overwrite
  the last executed parameters with the parameters. \<open>replayCallable\<close> is the callable that
  this resolves to, with the table it receives, or \<open>None\<close> when there is none.
\<close>

definition replayCallable ::
  "bool \<Rightarrow> 'v LuaFunTable \<Rightarrow> string \<Rightarrow> (string \<times> string option) option" where
  "replayCallable isUndo funTable funcName =
     (case metatable funTable of
        None \<Rightarrow> None
      | Some mt \<Rightarrow>
          (case (if isUndo then undoFunc funTable else redoFunc funTable) of
             Some hook \<Rightarrow> Some (hook, None)
           | None \<Rightarrow> map_option (\<lambda>f. (f, Some funcName)) (call_field mt)))"

text \<open>
  A replayed command leaves the undo/redo stack and the stack pointer alone when it runs
  while \<open>mUndoRedoProvenanceDisable\<close> is set: the condition on \<open>lua_call\<close> under which
  the stack after a replay is the stack before it.
\<close>

definition same_undo_stack :: "('v, 'w) LuaProvenance \<Rightarrow> ('v, 'w) LuaProvenance \<Rightarrow> bool" where
  "same_undo_stack s s' \<longleftrightarrow>
     mUndoRedoStack s' = mUndoRedoStack s \<and> mStackPointer s' = mStackPointer s"

definition replay_keeps_stack :: "('v, 'w) lua_call \<Rightarrow> bool" where
  "replay_keeps_stack lc \<longleftrightarrow>
     (\<forall>f self params s. mUndoRedoProvenanceDisable s \<longrightarrow>
        same_undo_stack s (state_of (lc f self params s)))"

definition replaying :: "('v, 'w) LuaProvenance \<Rightarrow> ('v, 'w) LuaProvenance \<Rightarrow> bool" where
  "replaying s t \<longleftrightarrow> same_undo_stack s t \<and> mUndoRedoProvenanceDisable t"

definition returned :: "'a outcome \<Rightarrow> bool" where
  "returned r = (case r of Returns s \<Rightarrow> True | Throws e s \<Rightarrow> False)"

definition thrown :: "'a outcome \<Rightarrow> LuaError option" where
  "thrown r = (case r of Returns s \<Rightarrow> None | Throws e s \<Rightarrow> Some e)"

section \<open>The execution engine and the commands of the unit tests\<close>

text \<open>
  Modelled from the spec: the dispatch of a registered command by the execution engine
  (LuaScripting and the function bindings are not among the sources). The engine calls
  \<open>logExecution\<close> with the arguments of the call before the command runs, and brackets the
  body of the command with \<open>beginCommand\<close> and \<open>endCommand\<close>, so that the commands the
  body invokes are recorded as children. \<open>emptyParams\<close> is a fresh parameter object.
\<close>

definition dispatch ::
  "('v list \<Rightarrow> string) \<Rightarrow> string \<Rightarrow> bool \<Rightarrow> 'v list
     \<Rightarrow> (('v, 'w) LuaProvenance \<Rightarrow> ('v, 'w) LuaProvenance outcome)
     \<Rightarrow> ('v, 'w) LuaProvenance \<Rightarrow> ('v, 'w) LuaProvenance outcome" where
  "dispatch fmt fname undoRedoStackExempt params body s =
     andThen (logExecution fmt fname undoRedoStackExempt params [] s)
       (\<lambda>s1. case body (beginCommand s1) of
                Returns s2 \<Rightarrow> Returns (endCommand s2)
              | Throws e s2 \<Rightarrow> Throws e (endCommand s2))"

text \<open>
  The values of the parameters in the tests, and a rendering of them for the provenance
  record (the text that \<open>getFormattedParameterValues\<close> returns is not in the sources).
\<close>

datatype LuaValue = LuaInt int | LuaString string | LuaBool bool

fun formatValue :: "LuaValue \<Rightarrow> string" where
  "formatValue (LuaInt i) = showInt i"
| "formatValue (LuaString t) = t"
| "formatValue (LuaBool b) = (if b then ''true'' else ''false'')"

fun formatParams :: "LuaValue list \<Rightarrow> string" where
  "formatParams [] = []"
| "formatParams [v] = formatValue v"
| "formatParams (v # w # vs) = formatValue v @ '', '' @ formatParams (w # vs)"

text \<open>
  The static variables \<open>i1\<close>, \<open>s1\<close>, \<open>b1\<close> of the tests ProvenanceStaticTests and
  ProvenanceCompositeSingle, and the functions \<open>set_i1\<close>, \<open>set_s1\<close>, \<open>set_b1\<close> and
  \<open>set_i1_s1_b1\<close> (registered as \<open>setAll\<close>), which executes the three setters through
  the scripting system. \<open>open_file\<close> is not one of the tests' functions: it stands for a
  command that throws on some argument, here the empty file name that is its default.
\<close>

record TestGlobals =
  var_i1 :: int
  var_s1 :: string
  var_b1 :: bool

type_synonym TestState = "(LuaValue, TestGlobals) LuaProvenance"

definition updateGlobals :: "('w \<Rightarrow> 'w) \<Rightarrow> ('v, 'w) LuaProvenance \<Rightarrow> ('v, 'w) LuaProvenance" where
  "updateGlobals f s = s\<lparr>mScripting := (mScripting s)\<lparr>globals := f (globals (mScripting s))\<rparr>\<rparr>"

fun set_i1 :: "LuaValue list \<Rightarrow> TestState \<Rightarrow> TestState outcome" where
  "set_i1 [LuaInt a] s = Returns (updateGlobals (\<lambda>g. g\<lparr>var_i1 := a\<rparr>) s)"
| "set_i1 args s = Throws LuaRuntimeError s"

fun set_s1 :: "LuaValue list \<Rightarrow> TestState \<Rightarrow> TestState outcome" where
  "set_s1 [LuaString t] s = Returns (updateGlobals (\<lambda>g. g\<lparr>var_s1 := t\<rparr>) s)"
| "set_s1 args s = Throws LuaRuntimeError s"

fun set_b1 :: "LuaValue list \<Rightarrow> TestState \<Rightarrow> TestState outcome" where
  "set_b1 [LuaBool a] s = Returns (updateGlobals (\<lambda>g. g\<lparr>var_b1 := a\<rparr>) s)"
| "set_b1 args s = Throws LuaRuntimeError s"

fun open_file :: "LuaValue list \<Rightarrow> TestState \<Rightarrow> TestState outcome" where
  "open_file [LuaString t] s =
     (if t = [] then Throws LuaRuntimeError s
      else Returns (updateGlobals (\<lambda>g. g\<lparr>var_s1 := t\<rparr>) s))"
| "open_file args s = Throws LuaRuntimeError s"

definition call_simple :: "string \<Rightarrow> LuaValue list \<Rightarrow> TestState \<Rightarrow> TestState outcome" where
  "call_simple f params s =
     (if f = ''set_i1'' then dispatch formatParams f False params (set_i1 params) s
      else if f = ''set_s1'' then dispatch formatParams f False params (set_s1 params) s
      else if f = ''set_b1'' then dispatch formatParams f False params (set_b1 params) s
      else if f = ''open_file'' then dispatch formatParams f False params (open_file params) s
      else Throws LuaRuntimeError s)"

fun set_i1_s1_b1 :: "LuaValue list \<Rightarrow> TestState \<Rightarrow> TestState outcome" where
  "set_i1_s1_b1 [LuaInt a, LuaString b, LuaBool c] s =
     andThen (call_simple ''set_i1'' [LuaInt a] s)
       (\<lambda>s1. andThen (call_simple ''set_s1'' [LuaString b] s1)
          (call_simple ''set_b1'' [LuaBool c]))"
| "set_i1_s1_b1 args s = Throws LuaRuntimeError s"

definition test_lua_call :: "(LuaValue, TestGlobals) lua_call" where
  "test_lua_call f self params s =
     (if f = ''setAll'' then dispatch formatParams f False params (set_i1_s1_b1 params) s
      else call_simple f params s)"

text \<open>
  A registered function: its table has a metatable whose \<open>__call\<close> is the bound function,
  no undo or redo hook, and the defaults as last executed parameters (\<open>setDefaults\<close> gives
  \<open>set_s1\<close> the default \<open>nop\<close>).
\<close>

definition registered :: "string \<Rightarrow> 'v list \<Rightarrow> 'v LuaFunTable" where
  "registered f defaults =
     \<lparr> metatable = Some (LuaMetatable (Some f)), undoFunc = None, redoFunc = None,
       lastExec = defaults \<rparr>"

definition test_scripting :: "(LuaValue, TestGlobals) LuaScripting" where
  "test_scripting =
     \<lparr> funTables = [''set_i1'' \<mapsto> registered ''set_i1'' [LuaInt 0],
                     ''set_s1'' \<mapsto> registered ''set_s1'' [LuaString ''nop''],
                     ''set_b1'' \<mapsto> registered ''set_b1'' [LuaBool False],
                     ''setAll'' \<mapsto> registered ''setAll'' [LuaInt 0, LuaString [], LuaBool False],
                     ''open_file'' \<mapsto> registered ''open_file'' [LuaString []]],
       globals = \<lparr> var_i1 = 0, var_s1 = ''nop'', var_b1 = False \<rparr> \<rparr>"

definition test_init :: TestState where
  "test_init = LuaProvenance_new test_scripting"

text \<open>\<open>sc->exec("f(...)")\<close>: Lua calls the table of \<open>f\<close>, that is its \<open>__call\<close>.\<close>

definition exec :: "string \<Rightarrow> LuaValue list \<Rightarrow> TestState \<Rightarrow> TestState outcome" where
  "exec f params s = test_lua_call f (Some f) params s"

subsection \<open>States of the scenarios\<close>

text \<open>After \<open>set_i1(1)\<close>.\<close>

definition one_call :: TestState where
  "one_call = state_of (exec ''set_i1'' [LuaInt 1] test_init)"

text \<open>After \<open>set_i1(1)\<close> and \<open>beginCommand\<close>: inside the body of a command.\<close>

definition inside_command :: TestState where
  "inside_command = beginCommand one_call"

text \<open>
  ProvenanceCompositeSingle: \<open>set_i1(23)\<close>, \<open>set_s1('Test String')\<close>, \<open>set_b1(true)\<close>,
  \<open>setAll(78, 'Str Test', false)\<close>; then an undo; then a redo.
\<close>

definition composite_done :: TestState where
  "composite_done = state_of
     (andThen (exec ''set_i1'' [LuaInt 23] test_init)
       (\<lambda>s. andThen (exec ''set_s1'' [LuaString ''Test String''] s)
       (\<lambda>s. andThen (exec ''set_b1'' [LuaBool True] s)
       (exec ''setAll'' [LuaInt 78, LuaString ''Str Test'', LuaBool False]))))"

definition composite_undone :: TestState where
  "composite_undone = state_of (issueUndo test_lua_call composite_done)"

definition composite_redone :: TestState where
  "composite_redone = state_of (issueRedo test_lua_call composite_undone)"

text \<open>After \<open>open_file('a.dat')\<close>.\<close>

definition file_opened :: TestState where
  "file_opened = state_of (exec ''open_file'' [LuaString ''a.dat''] test_init)"




text \<open>After \<open>set_i1(1)\<close>, \<open>enableLogAll(false)\<close> and \<open>enableLogAll(true)\<close>.\<close>

definition log_toggled :: TestState where
  "log_toggled = enableLogAll True (enableLogAll False one_call)"

text \<open>
  On a fresh controller, a command that is exempt from the stack (registered with
  \<open>undoRedo = false\<close>, as the getters of the tests and the functions \<open>provenance.*\<close>
  are) and whose body calls \<open>set_i1(1)\<close>.
\<close>

definition exempt_outer_call :: "TestState outcome" where
  "exempt_outer_call =
     dispatch formatParams ''init_i1'' True [] (call_simple ''set_i1'' [LuaInt 1]) test_init"

text \<open>ProvenanceStaticTests: \<open>set_i1(23)\<close>, \<open>set_s1('Test String')\<close>, \<open>set_b1(true)\<close>.\<close>

definition static_done :: TestState where
  "static_done = state_of
     (andThen (exec ''set_i1'' [LuaInt 23] test_init)
       (\<lambda>s. andThen (exec ''set_s1'' [LuaString ''Test String''] s)
       (exec ''set_b1'' [LuaBool True])))"

section \<open>Properties of the operations\<close>

lemma outcome_returned: "returned r \<Longrightarrow> r = Returns (state_of r)"
  by (cases r) (simp_all add: returned_def)

lemma outcome_thrown: "thrown r = Some e \<Longrightarrow> r = Throws e (state_of r)"
  by (cases r) (simp_all add: thrown_def)

subsection \<open>Recording a call\<close>

lemma pop_back_n_take:
  "n \<le> length xs \<Longrightarrow> pop_back_n n xs = Returns (take (length xs - n) xs)"
proof (induction n arbitrary: xs)
  case 0
  then show ?case by simp
next
  case (Suc n)
  then have ne: "xs \<noteq> []" by auto
  have "n \<le> length (butlast xs)" using Suc.prems by simp
  from Suc.IH [OF this] ne show ?case
    by (simp add: butlast_conv_take)
qed

lemma eraseRedoHistory_take:
  assumes "0 \<le> mStackPointer s" and "mStackPointer s \<le> int (length (mUndoRedoStack s))"
  shows "eraseRedoHistory s =
    Returns (s\<lparr>mUndoRedoStack := take (nat (mStackPointer s)) (mUndoRedoStack s)\<rparr>)"
proof -
  let ?n = "nat (int (length (mUndoRedoStack s)) - mStackPointer s)"
  have le: "?n \<le> length (mUndoRedoStack s)" using assms by simp
  have eq: "length (mUndoRedoStack s) - ?n = nat (mStackPointer s)" using assms by simp
  show ?thesis
    using assms by (simp add: eraseRedoHistory_def Let_def pop_back_n_take [OF le] eq)
qed

lemma logDescription_append:
  "\<not> mUndoRedoProvenanceDisable s \<Longrightarrow>
   \<exists>l. logDescription fmt fname funParams s = Returns (s\<lparr>mProvenanceDescList := l\<rparr>)"
  apply (simp add: logDescription_def Let_def)
  apply (intro conjI impI)
   apply blast
  apply (rule exI [of _ "mProvenanceDescList s"])
  apply simp
  done

lemma logExecution_unfold:
  assumes "\<not> mTemporarilyDisabled s" "\<not> mLoggingProvenance s"
    and "\<not> mUndoRedoProvenanceDisable s"
    and "0 \<le> mStackPointer s" "mStackPointer s \<le> int (length (mUndoRedoStack s))"
  shows "\<exists>l. logExecution fmt fname False funParams emptyParams s =
      recordUndoRedoItem fname funParams emptyParams
        (s\<lparr>mLoggingProvenance := True, mProvenanceDescList := l,
           mUndoRedoStack := take (nat (mStackPointer s)) (mUndoRedoStack s)\<rparr>)"
proof -
  let ?s0 = "s\<lparr>mLoggingProvenance := True\<rparr>"
  obtain l where l: "logDescription fmt fname funParams ?s0 = Returns (?s0\<lparr>mProvenanceDescList := l\<rparr>)"
    using logDescription_append [of ?s0 fmt fname funParams] assms(3) by auto
  let ?s1 = "?s0\<lparr>mProvenanceDescList := l\<rparr>"
  have e: "eraseRedoHistory ?s1 =
      Returns (?s1\<lparr>mUndoRedoStack := take (nat (mStackPointer s)) (mUndoRedoStack s)\<rparr>)"
    using eraseRedoHistory_take [of ?s1] assms(4,5) by simp
  have "logExecution fmt fname False funParams emptyParams s =
      recordUndoRedoItem fname funParams emptyParams
        (?s1\<lparr>mUndoRedoStack := take (nat (mStackPointer s)) (mUndoRedoStack s)\<rparr>)"
    using assms(1-3) by (simp add: logExecution_def l e)
  then show ?thesis by blast
qed

text \<open>
  A call of \<open>logExecution\<close> for a registered command that is not exempt from the
  stack, outside a replay and with the controller idle, removes the entries at and above
  the stack pointer. At depth 0 it appends one entry with the name, the last executed
  parameters as undo parameters and the parameters of the call as redo parameters, and
  increments the stack pointer. At another depth, when an entry is below the stack
  pointer, it adds that entry as a child of the entry on the top of the stack and leaves
  the stack pointer alone. Afterwards the stack pointer is between 0 and the length of
  the stack. The command is registered when its table exists and holds as many last
  executed parameters as the call has parameters.
\<close>

theorem logExecution_records_entry:
  assumes idle: "\<not> mTemporarilyDisabled s" "\<not> mLoggingProvenance s"
    and norep: "\<not> mUndoRedoProvenanceDisable s"
    and reg: "funTables (mScripting s) fname = Some funTable"
      "length (lastExec funTable) = length funParams"
    and sp: "0 \<le> mStackPointer s" "mStackPointer s \<le> int (length (mUndoRedoStack s))"
    and parent: "mCommandDepth s \<noteq> 0 \<longrightarrow> 0 < mStackPointer s"
  shows "\<exists>s'. logExecution fmt fname False funParams emptyParams s = Returns s' \<and>
     (let item = UndoRedoItem fname
                   (if lastExec funTable = [] then emptyParams else lastExec funTable) funParams None;
          kept = take (nat (mStackPointer s)) (mUndoRedoStack s)
      in (mCommandDepth s = 0 \<longrightarrow>
            mUndoRedoStack s' = kept @ [item] \<and> mStackPointer s' = mStackPointer s + 1) \<and>
         (mCommandDepth s \<noteq> 0 \<longrightarrow>
            mUndoRedoStack s' = butlast kept @ [addChildItem (last kept) item] \<and>
            mStackPointer s' = mStackPointer s) \<and>
         0 \<le> mStackPointer s' \<and> mStackPointer s' \<le> int (length (mUndoRedoStack s')))"
proof -
  let ?kept = "take (nat (mStackPointer s)) (mUndoRedoStack s)"
  obtain l where unf: "logExecution fmt fname False funParams emptyParams s =
      recordUndoRedoItem fname funParams emptyParams
        (s\<lparr>mLoggingProvenance := True, mProvenanceDescList := l, mUndoRedoStack := ?kept\<rparr>)"
    using logExecution_unfold [OF idle norep sp] by blast
  have len: "length ?kept = nat (mStackPointer s)" using sp by simp
  have emp: "(funParams = []) = (lastExec funTable = [])"
    using reg(2) by (metis length_0_conv)
  show ?thesis
  proof (cases "mCommandDepth s = 0")
    case True
    then show ?thesis
      using reg sp len unfolding unf
      by (simp add: recordUndoRedoItem_def Let_def emp)
  next
    case False
    then have "0 < mStackPointer s" using parent by simp
    then have "?kept \<noteq> []" using sp by auto
    then show ?thesis
      using False reg sp len unfolding unf
      by (simp add: recordUndoRedoItem_def Let_def emp)
  qed
qed

lemma one_call_facts:
  "\<not> mTemporarilyDisabled one_call" "\<not> mLoggingProvenance one_call"
  "\<not> mUndoRedoProvenanceDisable one_call"
  "funTables (mScripting one_call) ''set_s1'' = Some (registered ''set_s1'' [LuaString ''nop''])"
  "mStackPointer one_call = 1"
  "mUndoRedoStack one_call = [UndoRedoItem ''set_i1'' [LuaInt 0] [LuaInt 1] None]"
  "mCommandDepth one_call = 0"
  "mProvenanceDescList one_call = [''set_i1(1) - depth:0'']"
  "mProvenanceDescLogEnabled one_call"
  by (code_simp+)

lemma composite_undone_facts:
  "\<not> mTemporarilyDisabled composite_undone" "\<not> mLoggingProvenance composite_undone"
  "\<not> mUndoRedoProvenanceDisable composite_undone"
  "funTables (mScripting composite_undone) ''set_i1'' = Some (registered ''set_i1'' [LuaInt 23])"
  "mStackPointer composite_undone = 3" "length (mUndoRedoStack composite_undone) = 4"
  "take 3 (mUndoRedoStack composite_undone) =
     [UndoRedoItem ''set_i1'' [LuaInt 0] [LuaInt 23] None,
      UndoRedoItem ''set_s1'' [LuaString ''nop''] [LuaString ''Test String''] None,
      UndoRedoItem ''set_b1'' [LuaBool False] [LuaBool True] None]"
  "mCommandDepth composite_undone = 0"
  by (code_simp+)

theorem logExecution_records_entry_witness:
  "(\<exists>s'. logExecution formatParams ''set_i1'' False [LuaInt 42] [] composite_undone = Returns s' \<and>
      mUndoRedoStack s' =
        [UndoRedoItem ''set_i1'' [LuaInt 0] [LuaInt 23] None,
         UndoRedoItem ''set_s1'' [LuaString ''nop''] [LuaString ''Test String''] None,
         UndoRedoItem ''set_b1'' [LuaBool False] [LuaBool True] None,
         UndoRedoItem ''set_i1'' [LuaInt 23] [LuaInt 42] None] \<and>
      mStackPointer s' = 4) \<and>
   (\<exists>s'. logExecution formatParams ''set_s1'' False [LuaString ''x''] [] inside_command = Returns s' \<and>
      mUndoRedoStack s' = [UndoRedoItem ''set_i1'' [LuaInt 0] [LuaInt 1]
         (Some [UndoRedoItem ''set_s1'' [LuaString ''nop''] [LuaString ''x''] None])] \<and>
      mStackPointer s' = 1)"
proof
  show "\<exists>s'. logExecution formatParams ''set_i1'' False [LuaInt 42] [] composite_undone = Returns s' \<and>
      mUndoRedoStack s' =
        [UndoRedoItem ''set_i1'' [LuaInt 0] [LuaInt 23] None,
         UndoRedoItem ''set_s1'' [LuaString ''nop''] [LuaString ''Test String''] None,
         UndoRedoItem ''set_b1'' [LuaBool False] [LuaBool True] None,
         UndoRedoItem ''set_i1'' [LuaInt 23] [LuaInt 42] None] \<and>
      mStackPointer s' = 4"
    using logExecution_records_entry [of composite_undone "''set_i1''" "registered ''set_i1'' [LuaInt 23]"
        "[LuaInt 42]" formatParams "[]"]
    by (simp add: composite_undone_facts registered_def Let_def) blast
next
  show "\<exists>s'. logExecution formatParams ''set_s1'' False [LuaString ''x''] [] inside_command = Returns s' \<and>
      mUndoRedoStack s' = [UndoRedoItem ''set_i1'' [LuaInt 0] [LuaInt 1]
         (Some [UndoRedoItem ''set_s1'' [LuaString ''nop''] [LuaString ''x''] None])] \<and>
      mStackPointer s' = 1"
    using logExecution_records_entry [of inside_command "''set_s1''" "registered ''set_s1'' [LuaString ''nop'']"
        "[LuaString ''x'']" formatParams "[]"]
    by (simp add: inside_command_def beginCommand_def one_call_facts registered_def Let_def
        addChildItem_def) blast
qed

text \<open>
  C1. At a depth above 0 with no entry below the stack pointer, \<open>logExecution\<close> for a
  registered command that is not exempt, outside a replay, appends no child and fails the
  assertion \<open>mUndoRedoStack.size() > 0\<close>. The depth is above 0 inside the body of every
  command, also of one that is exempt from the stack and pushed no entry: on a fresh
  controller, \<open>beginCommand\<close> followed by \<open>logExecution\<close> fails, and so does an exempt
  command whose body calls \<open>set_i1(1)\<close>.
\<close>

theorem logExecution_child_without_entry:
  "mTemporarilyDisabled (beginCommand test_init) = False \<and>
   mLoggingProvenance (beginCommand test_init) = False \<and>
   mUndoRedoProvenanceDisable (beginCommand test_init) = False \<and>
   map_option lastExec (funTables (mScripting (beginCommand test_init)) ''set_i1'') = Some [LuaInt 0] \<and>
   mCommandDepth (beginCommand test_init) = 1 \<and>
   mStackPointer (beginCommand test_init) = 0 \<and>
   mUndoRedoStack (beginCommand test_init) = [] \<and>
   thrown (logExecution formatParams ''set_i1'' False [LuaInt 1] [] (beginCommand test_init))
     = Some AssertionFailed \<and>
   thrown exempt_outer_call = Some AssertionFailed"
  by (intro conjI; code_simp)

subsection \<open>Replays and the undo/redo stack\<close>

lemma same_undo_stack_refl: "same_undo_stack s s"
  by (simp add: same_undo_stack_def)

lemma same_undo_stack_trans:
  "same_undo_stack s t \<Longrightarrow> same_undo_stack t u \<Longrightarrow> same_undo_stack s u"
  by (simp add: same_undo_stack_def)

lemma performUndoRedoOp_keeps_stack:
  assumes "replay_keeps_stack lc"
  shows "same_undo_stack s (state_of (performUndoRedoOp lc funcName params isUndo s))"
proof -
  have call: "same_undo_stack s (state_of (andThen (lc f self params (s\<lparr>mUndoRedoProvenanceDisable := True\<rparr>))
        (\<lambda>t. Returns (copyParamsToTable funcName params (t\<lparr>mUndoRedoProvenanceDisable := False\<rparr>)))))"
    for f self
  proof -
    let ?s = "s\<lparr>mUndoRedoProvenanceDisable := True\<rparr>"
    have k: "same_undo_stack ?s (state_of (lc f self params ?s))"
      using assms by (simp add: replay_keeps_stack_def)
    show ?thesis
    proof (cases "lc f self params ?s")
      case (Returns t)
      with k show ?thesis
        by (simp add: same_undo_stack_def copyParamsToTable_def split: option.splits)
    next
      case (Throws e t)
      with k show ?thesis by (simp add: same_undo_stack_def)
    qed
  qed
  show ?thesis
    unfolding performUndoRedoOp_def
    by (auto simp: same_undo_stack_refl call split: option.splits)
qed

lemma performReplays_keeps_stack:
  assumes "replay_keeps_stack lc"
  shows "same_undo_stack s (state_of (performReplays lc isUndo rs s))"
proof (induction rs arbitrary: s)
  case Nil
  show ?case by (simp add: same_undo_stack_refl)
next
  case (Cons r rs)
  obtain name params where r: "r = (name, params)" by (cases r)
  have a: "same_undo_stack s (state_of (performUndoRedoOp lc name params isUndo s))"
    by (rule performUndoRedoOp_keeps_stack [OF assms])
  show ?case
  proof (cases "performUndoRedoOp lc name params isUndo s")
    case (Returns t)
    with a Cons.IH [of t] show ?thesis
      by (auto simp: r intro: same_undo_stack_trans)
  next
    case (Throws e t)
    with a show ?thesis by (simp add: r)
  qed
qed

lemma rethrow_andThen:
  "rethrowInvalidUndoOrRedo e' (andThen m f) =
   andThen (rethrowInvalidUndoOrRedo e' m) (\<lambda>t. rethrowInvalidUndoOrRedo e' (f t))"
  by (cases m) auto

lemma undoChildItems_performReplays:
  "undoChildItems lc cs s =
   rethrowInvalidUndoOrRedo LuaProvenanceInvalidUndo
     (performReplays lc True (map (\<lambda>c. (function_name c, undoParams c)) cs) s)"
proof (induction cs arbitrary: s)
  case Nil
  show ?case by simp
next
  case (Cons c cs)
  show ?case
    by (cases "performUndoRedoOp lc (function_name c) (undoParams c) True s")
       (simp_all add: Cons.IH)
qed

text \<open>
  With a stack pointer inside the stack, \<open>issueUndo\<close> is the replay sequence of the
  specification, the typed handler, and the decrement of the stack pointer.
\<close>

lemma issueUndo_performReplays:
  assumes "0 < mStackPointer s" "mStackPointer s \<le> int (length (mUndoRedoStack s))"
  shows "issueUndo lc s =
     andThen (rethrowInvalidUndoOrRedo LuaProvenanceInvalidUndo
                (performReplays lc True
                   (undoReplayOrder (mUndoRedoStack s ! nat (mStackPointer s - 1))) s))
       (\<lambda>t. Returns (t\<lparr>mStackPointer := mStackPointer t - 1\<rparr>))"
proof -
  let ?e = "mUndoRedoStack s ! nat (mStackPointer s - 1)"
  show ?thesis
  proof (cases "performUndoRedoOp lc (function_name ?e) (undoParams ?e) True s")
    case (Returns t)
    then show ?thesis using assms
      by (cases "childItems ?e")
         (simp_all add: issueUndo_def Let_def undoReplayOrder_def undoChildItems_performReplays)
  next
    case (Throws e t)
    then show ?thesis using assms
      by (simp add: issueUndo_def Let_def undoReplayOrder_def)
  qed
qed

lemma issueRedo_performReplays:
  assumes "0 \<le> mStackPointer s" "mStackPointer s < int (length (mUndoRedoStack s))"
  shows "issueRedo lc s =
     andThen (rethrowInvalidUndoOrRedo LuaProvenanceInvalidRedo
                (performReplays lc False
                   (redoReplayOrder (mUndoRedoStack s ! nat (mStackPointer s))) s))
       (\<lambda>t. Returns (t\<lparr>mStackPointer := mStackPointer t + 1\<rparr>))"
proof -
  let ?e = "mUndoRedoStack s ! nat (mStackPointer s)"
  show ?thesis using assms
    by (cases "performUndoRedoOp lc (function_name ?e) (redoParams ?e) False s")
       (simp_all add: issueRedo_def Let_def redoReplayOrder_def)
qed

lemma issueUndo_Returns_index:
  assumes "issueUndo lc s = Returns s'"
  shows "0 < mStackPointer s \<and> mStackPointer s \<le> int (length (mUndoRedoStack s))"
proof -
  have "mStackPointer s \<noteq> 0" using assms by (auto simp: issueUndo_def)
  moreover have "\<not> (mStackPointer s - 1 < 0 \<or> int (length (mUndoRedoStack s)) \<le> mStackPointer s - 1)"
    using assms by (auto simp: issueUndo_def Let_def split: if_splits)
  ultimately show ?thesis by arith
qed

lemma issueRedo_Returns_index:
  assumes "issueRedo lc s = Returns s'"
  shows "0 \<le> mStackPointer s \<and> mStackPointer s < int (length (mUndoRedoStack s))"
proof -
  have "\<not> (mStackPointer s < 0 \<or> int (length (mUndoRedoStack s)) \<le> mStackPointer s)"
    using assms by (auto simp: issueRedo_def Let_def split: if_splits)
  then show ?thesis by arith
qed

subsection \<open>The commands of the tests during a replay\<close>

lemma replaying_refl: "mUndoRedoProvenanceDisable s \<Longrightarrow> replaying s s"
  by (simp add: replaying_def same_undo_stack_def)

lemma replaying_trans: "replaying s t \<Longrightarrow> replaying t u \<Longrightarrow> replaying s u"
  by (simp add: replaying_def same_undo_stack_def)

lemma andThen_replaying:
  assumes "replaying s (state_of m)" and "\<And>t. m = Returns t \<Longrightarrow> replaying s (state_of (f t))"
  shows "replaying s (state_of (andThen m f))"
  using assms by (cases m) auto

lemma logExecution_replaying:
  "mUndoRedoProvenanceDisable s \<Longrightarrow>
   replaying s (state_of (logExecution fmt fname ex funParams emptyParams s))"
  by (simp add: logExecution_def logDescription_def ammendLastProvLog_def Let_def
      replaying_def same_undo_stack_def)

lemma dispatch_replaying:
  assumes flag: "mUndoRedoProvenanceDisable s"
    and body: "\<And>t. mUndoRedoProvenanceDisable t \<Longrightarrow> replaying t (state_of (body t))"
  shows "replaying s (state_of (dispatch fmt fname ex params body s))"
  unfolding dispatch_def
proof (rule andThen_replaying)
  show "replaying s (state_of (logExecution fmt fname ex params [] s))"
    by (rule logExecution_replaying [OF flag])
next
  fix t assume "logExecution fmt fname ex params [] s = Returns t"
  with logExecution_replaying [OF flag, of fmt fname ex params "[]"]
  have st: "replaying s t" by simp
  then have b: "replaying s (beginCommand t)"
    by (simp add: replaying_def same_undo_stack_def beginCommand_def)
  then have "mUndoRedoProvenanceDisable (beginCommand t)" by (simp add: replaying_def)
  from body [OF this] b have c: "replaying s (state_of (body (beginCommand t)))"
    by (blast intro: replaying_trans)
  then show "replaying s (state_of (case body (beginCommand t) of
        Returns s2 \<Rightarrow> Returns (endCommand s2) | Throws e s2 \<Rightarrow> Throws e (endCommand s2)))"
    by (cases "body (beginCommand t)")
       (simp_all add: replaying_def same_undo_stack_def endCommand_def)
qed

lemma set_i1_replaying: "mUndoRedoProvenanceDisable t \<Longrightarrow> replaying t (state_of (set_i1 args t))"
  by (cases "(args, t)" rule: set_i1.cases)
     (simp_all add: replaying_def same_undo_stack_def updateGlobals_def)

lemma set_s1_replaying: "mUndoRedoProvenanceDisable t \<Longrightarrow> replaying t (state_of (set_s1 args t))"
  by (cases "(args, t)" rule: set_s1.cases)
     (simp_all add: replaying_def same_undo_stack_def updateGlobals_def)

lemma set_b1_replaying: "mUndoRedoProvenanceDisable t \<Longrightarrow> replaying t (state_of (set_b1 args t))"
  by (cases "(args, t)" rule: set_b1.cases)
     (simp_all add: replaying_def same_undo_stack_def updateGlobals_def)

lemma open_file_replaying: "mUndoRedoProvenanceDisable t \<Longrightarrow> replaying t (state_of (open_file args t))"
  by (cases "(args, t)" rule: open_file.cases)
     (simp_all add: replaying_def same_undo_stack_def updateGlobals_def)

lemma call_simple_replaying:
  "mUndoRedoProvenanceDisable t \<Longrightarrow> replaying t (state_of (call_simple f params t))"
  unfolding call_simple_def
  by (auto intro!: dispatch_replaying set_i1_replaying set_s1_replaying set_b1_replaying
        open_file_replaying replaying_refl)

lemma set_i1_s1_b1_replaying:
  assumes "mUndoRedoProvenanceDisable t"
  shows "replaying t (state_of (set_i1_s1_b1 args t))"
proof (cases "(args, t)" rule: set_i1_s1_b1.cases)
  case (1 a b c s)
  have step: "replaying t (state_of (call_simple f ps u))" if "replaying t u" for f ps u
  proof -
    from that have "mUndoRedoProvenanceDisable u" by (simp add: replaying_def)
    then have "replaying u (state_of (call_simple f ps u))" by (rule call_simple_replaying)
    with that show ?thesis by (rule replaying_trans)
  qed
  have "replaying t (state_of (andThen (call_simple ''set_i1'' [LuaInt a] t)
       (\<lambda>s1. andThen (call_simple ''set_s1'' [LuaString b] s1) (call_simple ''set_b1'' [LuaBool c]))))"
  proof (rule andThen_replaying)
    show "replaying t (state_of (call_simple ''set_i1'' [LuaInt a] t))"
      by (rule call_simple_replaying [OF assms])
  next
    fix u assume u: "call_simple ''set_i1'' [LuaInt a] t = Returns u"
    have tu: "replaying t u"
      using call_simple_replaying [OF assms, of "''set_i1''" "[LuaInt a]"] u by simp
    show "replaying t (state_of (andThen (call_simple ''set_s1'' [LuaString b] u)
        (call_simple ''set_b1'' [LuaBool c])))"
    proof (rule andThen_replaying)
      show "replaying t (state_of (call_simple ''set_s1'' [LuaString b] u))"
        by (rule step [OF tu])
    next
      fix v assume v: "call_simple ''set_s1'' [LuaString b] u = Returns v"
      have "replaying t v" using step [OF tu, of "''set_s1''" "[LuaString b]"] v by simp
      then show "replaying t (state_of (call_simple ''set_b1'' [LuaBool c] v))"
        by (rule step)
    qed
  qed
  with 1 show ?thesis by simp
qed (simp_all add: replaying_refl [OF assms])

lemma test_lua_call_keeps_stack: "replay_keeps_stack test_lua_call"
  unfolding replay_keeps_stack_def
proof (intro allI impI)
  fix f self params and s :: TestState
  assume flag: "mUndoRedoProvenanceDisable s"
  have "replaying s (state_of (test_lua_call f self params s))"
    unfolding test_lua_call_def
    by (auto intro!: dispatch_replaying set_i1_s1_b1_replaying call_simple_replaying flag)
  then show "same_undo_stack s (state_of (test_lua_call f self params s))"
    by (simp add: replaying_def)
qed

section \<open>Undo and redo\<close>

lemma composite_facts:
  "mStackPointer composite_done = 4"
  "mUndoRedoStack composite_done ! 3 =
     UndoRedoItem ''setAll'' [LuaInt 0, LuaString [], LuaBool False]
       [LuaInt 78, LuaString ''Str Test'', LuaBool False]
       (Some [UndoRedoItem ''set_i1'' [LuaInt 23] [LuaInt 78] None,
              UndoRedoItem ''set_s1'' [LuaString ''Test String''] [LuaString ''Str Test''] None,
              UndoRedoItem ''set_b1'' [LuaBool True] [LuaBool False] None])"
  "returned (issueUndo test_lua_call composite_done)"
  "globals (mScripting composite_undone) = \<lparr>var_i1 = 23, var_s1 = ''Test String'', var_b1 = True\<rparr>"
  "mStackPointer composite_undone = 3"
  "returned (issueRedo test_lua_call composite_undone)"
  "globals (mScripting composite_redone) = \<lparr>var_i1 = 78, var_s1 = ''Str Test'', var_b1 = False\<rparr>"
  by (code_simp+)

text \<open>
  C2. A successful \<open>issueUndo\<close> has a stack pointer above 0 and replays the entry below
  the stack pointer: first the command of the entry with the undo parameters of the
  entry, then the command of each child with the undo parameters of that child, from the
  first child to the last, each through \<open>performUndoRedoOp\<close>. The state it returns is the
  state after the last replay with the stack pointer decremented by one; the stack is the
  one before the call. Replayed commands are taken to leave the stack and the stack
  pointer alone while the replay is in progress.
\<close>

theorem issueUndo_replays_parent_then_children:
  assumes "replay_keeps_stack lc" and "issueUndo lc s = Returns s'"
  shows "0 < mStackPointer s \<and> mStackPointer s \<le> int (length (mUndoRedoStack s)) \<and>
     (\<exists>t. performReplays lc True
             (undoReplayOrder (mUndoRedoStack s ! nat (mStackPointer s - 1))) s = Returns t \<and>
          s' = t\<lparr>mStackPointer := mStackPointer s - 1\<rparr>) \<and>
     mStackPointer s' = mStackPointer s - 1 \<and> mUndoRedoStack s' = mUndoRedoStack s"
proof -
  let ?rs = "undoReplayOrder (mUndoRedoStack s ! nat (mStackPointer s - 1))"
  have idx: "0 < mStackPointer s \<and> mStackPointer s \<le> int (length (mUndoRedoStack s))"
    by (rule issueUndo_Returns_index [OF assms(2)])
  then have eq: "issueUndo lc s =
      andThen (rethrowInvalidUndoOrRedo LuaProvenanceInvalidUndo (performReplays lc True ?rs s))
        (\<lambda>t. Returns (t\<lparr>mStackPointer := mStackPointer t - 1\<rparr>))"
    by (simp add: issueUndo_performReplays)
  have keep: "same_undo_stack s (state_of (performReplays lc True ?rs s))"
    by (rule performReplays_keeps_stack [OF assms(1)])
  show ?thesis
  proof (cases "performReplays lc True ?rs s")
    case (Returns t)
    with eq assms(2) have "s' = t\<lparr>mStackPointer := mStackPointer t - 1\<rparr>" by simp
    moreover from keep Returns have "mStackPointer t = mStackPointer s"
      "mUndoRedoStack t = mUndoRedoStack s" by (simp_all add: same_undo_stack_def)
    ultimately show ?thesis using idx Returns by simp
  next
    case (Throws e t)
    with eq assms(2) show ?thesis by (simp split: if_splits)
  qed
qed

theorem issueUndo_replays_witness:
  "issueUndo test_lua_call composite_done = Returns composite_undone \<and>
   undoReplayOrder (mUndoRedoStack composite_done ! 3) =
     [(''setAll'', [LuaInt 0, LuaString [], LuaBool False]),
      (''set_i1'', [LuaInt 23]), (''set_s1'', [LuaString ''Test String'']),
      (''set_b1'', [LuaBool True])] \<and>
   (\<exists>t. performReplays test_lua_call True (undoReplayOrder (mUndoRedoStack composite_done ! 3))
           composite_done = Returns t \<and>
        composite_undone = t\<lparr>mStackPointer := 3\<rparr>) \<and>
   mStackPointer composite_undone = 3 \<and>
   mUndoRedoStack composite_undone = mUndoRedoStack composite_done \<and>
   globals (mScripting composite_undone) =
     \<lparr>var_i1 = 23, var_s1 = ''Test String'', var_b1 = True\<rparr>"
proof -
  have r: "issueUndo test_lua_call composite_done = Returns composite_undone"
    unfolding composite_undone_def
    by (rule outcome_returned) (rule composite_facts)
  from issueUndo_replays_parent_then_children [OF test_lua_call_keeps_stack r]
  show ?thesis
    by (simp add: r composite_facts undoReplayOrder_def)
qed

lemma performUndoRedoOp_replayCallable:
  "performUndoRedoOp lc funcName params isUndo s =
     (case funTables (mScripting s) funcName of
        None \<Rightarrow> Throws LuaProvenanceInvalidUndoOrRedo s
      | Some funTable \<Rightarrow>
          (case replayCallable isUndo funTable funcName of
             None \<Rightarrow> Throws LuaProvenanceInvalidUndoOrRedo s
           | Some (f, self) \<Rightarrow>
               andThen (lc f self params (s\<lparr>mUndoRedoProvenanceDisable := True\<rparr>))
                 (\<lambda>t. Returns (copyParamsToTable funcName params
                                  (t\<lparr>mUndoRedoProvenanceDisable := False\<rparr>)))))"
  by (simp add: performUndoRedoOp_def replayCallable_def split: option.splits)

lemma performUndoRedoOp_Returns:
  assumes "performUndoRedoOp lc funcName params isUndo s = Returns t'"
  shows "\<exists>funTable f self t.
     funTables (mScripting s) funcName = Some funTable \<and>
     replayCallable isUndo funTable funcName = Some (f, self) \<and>
     lc f self params (s\<lparr>mUndoRedoProvenanceDisable := True\<rparr>) = Returns t \<and>
     t' = copyParamsToTable funcName params (t\<lparr>mUndoRedoProvenanceDisable := False\<rparr>)"
proof (cases "funTables (mScripting s) funcName")
  case None
  with assms show ?thesis by (simp add: performUndoRedoOp_replayCallable)
next
  case (Some funTable)
  show ?thesis
  proof (cases "replayCallable isUndo funTable funcName")
    case None
    with assms Some show ?thesis by (simp add: performUndoRedoOp_replayCallable)
  next
    case c: (Some p)
    obtain f self where p: "p = (f, self)" by (cases p)
    show ?thesis
    proof (cases "lc f self params (s\<lparr>mUndoRedoProvenanceDisable := True\<rparr>)")
      case (Returns t)
      with assms Some c p show ?thesis by (simp add: performUndoRedoOp_replayCallable)
    next
      case (Throws e t)
      with assms Some c p show ?thesis by (simp add: performUndoRedoOp_replayCallable)
    qed
  qed
qed

text \<open>
  C3. A successful \<open>issueRedo\<close> has a stack pointer below the length of the stack, and
  it invokes one command: the table of the command of the entry at the stack pointer
  exists, its callable is resolved (the redo hook, or else \<open>__call\<close> with the table as
  first argument), and \<open>lua_call\<close> runs that callable on the redo parameters of the entry
  with \<open>mUndoRedoProvenanceDisable\<close> set. The state that \<open>issueRedo\<close> returns is the state
  that this one call returned, with the flag cleared, the last executed parameters of the
  command overwritten with the redo parameters, and the stack pointer incremented by one.
  No child of the entry is replayed; the stack is the one before the call.
\<close>

theorem issueRedo_replays_entry_only:
  assumes "replay_keeps_stack lc" and "issueRedo lc s = Returns s'"
  shows "0 \<le> mStackPointer s \<and> mStackPointer s < int (length (mUndoRedoStack s)) \<and>
     (\<exists>funTable f self t.
        funTables (mScripting s) (function_name (mUndoRedoStack s ! nat (mStackPointer s)))
          = Some funTable \<and>
        replayCallable False funTable (function_name (mUndoRedoStack s ! nat (mStackPointer s)))
          = Some (f, self) \<and>
        lc f self (redoParams (mUndoRedoStack s ! nat (mStackPointer s)))
          (s\<lparr>mUndoRedoProvenanceDisable := True\<rparr>) = Returns t \<and>
        s' = (copyParamsToTable (function_name (mUndoRedoStack s ! nat (mStackPointer s)))
                (redoParams (mUndoRedoStack s ! nat (mStackPointer s)))
                (t\<lparr>mUndoRedoProvenanceDisable := False\<rparr>))
             \<lparr>mStackPointer := mStackPointer s + 1\<rparr>) \<and>
     mStackPointer s' = mStackPointer s + 1 \<and> mUndoRedoStack s' = mUndoRedoStack s"
proof -
  let ?e = "mUndoRedoStack s ! nat (mStackPointer s)"
  let ?p = "performUndoRedoOp lc (function_name ?e) (redoParams ?e) False s"
  have idx: "0 \<le> mStackPointer s \<and> mStackPointer s < int (length (mUndoRedoStack s))"
    by (rule issueRedo_Returns_index [OF assms(2)])
  have keep: "same_undo_stack s (state_of ?p)"
    by (rule performUndoRedoOp_keeps_stack [OF assms(1)])
  show ?thesis
  proof (cases ?p)
    case (Returns t')
    with idx assms(2) have s': "s' = t'\<lparr>mStackPointer := mStackPointer t' + 1\<rparr>"
      by (simp add: issueRedo_def Let_def)
    from keep Returns have same: "mStackPointer t' = mStackPointer s"
      "mUndoRedoStack t' = mUndoRedoStack s" by (simp_all add: same_undo_stack_def)
    from performUndoRedoOp_Returns [OF Returns] obtain funTable f self t where
      call: "funTables (mScripting s) (function_name ?e) = Some funTable"
        "replayCallable False funTable (function_name ?e) = Some (f, self)"
        "lc f self (redoParams ?e) (s\<lparr>mUndoRedoProvenanceDisable := True\<rparr>) = Returns t"
        "t' = copyParamsToTable (function_name ?e) (redoParams ?e)
                (t\<lparr>mUndoRedoProvenanceDisable := False\<rparr>)"
      by blast
    have "s' = (copyParamsToTable (function_name ?e) (redoParams ?e)
                  (t\<lparr>mUndoRedoProvenanceDisable := False\<rparr>))\<lparr>mStackPointer := mStackPointer s + 1\<rparr>"
      using s' same call(4) by simp
    with call(1-3) have "\<exists>funTable f self t.
        funTables (mScripting s) (function_name ?e) = Some funTable \<and>
        replayCallable False funTable (function_name ?e) = Some (f, self) \<and>
        lc f self (redoParams ?e) (s\<lparr>mUndoRedoProvenanceDisable := True\<rparr>) = Returns t \<and>
        s' = (copyParamsToTable (function_name ?e) (redoParams ?e)
                (t\<lparr>mUndoRedoProvenanceDisable := False\<rparr>))\<lparr>mStackPointer := mStackPointer s + 1\<rparr>"
      by blast
    moreover have "mStackPointer s' = mStackPointer s + 1" "mUndoRedoStack s' = mUndoRedoStack s"
      using s' same by simp_all
    ultimately show ?thesis using idx by blast
  next
    case (Throws e t)
    with idx assms(2) show ?thesis
      by (simp add: issueRedo_def Let_def split: if_splits)
  qed
qed

lemma composite_undone_entry:
  "mUndoRedoStack composite_undone ! 3 =
     UndoRedoItem ''setAll'' [LuaInt 0, LuaString [], LuaBool False]
       [LuaInt 78, LuaString ''Str Test'', LuaBool False]
       (Some [UndoRedoItem ''set_i1'' [LuaInt 23] [LuaInt 78] None,
              UndoRedoItem ''set_s1'' [LuaString ''Test String''] [LuaString ''Str Test''] None,
              UndoRedoItem ''set_b1'' [LuaBool True] [LuaBool False] None])"
  "funTables (mScripting composite_undone) ''setAll'' =
     Some (registered ''setAll'' [LuaInt 0, LuaString [], LuaBool False])"
  "map_option lastExec (funTables (mScripting composite_undone) ''set_i1'') = Some [LuaInt 23]"
  "map_option lastExec (funTables (mScripting composite_redone) ''set_i1'') = Some [LuaInt 23]"
  "map_option lastExec (funTables (mScripting composite_redone) ''setAll'') =
     Some [LuaInt 78, LuaString ''Str Test'', LuaBool False]"
  by (code_simp+)

theorem issueRedo_replays_witness:
  "issueRedo test_lua_call composite_undone = Returns composite_redone \<and>
   globals (mScripting composite_undone) =
     \<lparr>var_i1 = 23, var_s1 = ''Test String'', var_b1 = True\<rparr> \<and>
   (\<exists>t. test_lua_call ''setAll'' (Some ''setAll'')
           [LuaInt 78, LuaString ''Str Test'', LuaBool False]
           (composite_undone\<lparr>mUndoRedoProvenanceDisable := True\<rparr>) = Returns t \<and>
        composite_redone =
          (copyParamsToTable ''setAll'' [LuaInt 78, LuaString ''Str Test'', LuaBool False]
             (t\<lparr>mUndoRedoProvenanceDisable := False\<rparr>))\<lparr>mStackPointer := 4\<rparr>) \<and>
   globals (mScripting composite_redone) =
     \<lparr>var_i1 = 78, var_s1 = ''Str Test'', var_b1 = False\<rparr> \<and>
   mStackPointer composite_redone = 4 \<and>
   mUndoRedoStack composite_redone = mUndoRedoStack composite_undone \<and>
   map_option lastExec (funTables (mScripting composite_redone) ''setAll'') =
     Some [LuaInt 78, LuaString ''Str Test'', LuaBool False] \<and>
   map_option lastExec (funTables (mScripting composite_redone) ''set_i1'') = Some [LuaInt 23]"
proof -
  have r: "issueRedo test_lua_call composite_undone = Returns composite_redone"
    unfolding composite_redone_def
    by (rule outcome_returned) (rule composite_facts)
  have c: "replayCallable False (registered ''setAll'' [LuaInt 0, LuaString [], LuaBool False]) ''setAll''
      = Some (''setAll'', Some ''setAll'')"
    by (simp add: replayCallable_def registered_def)
  from issueRedo_replays_entry_only [OF test_lua_call_keeps_stack r]
  show ?thesis
    by (simp add: r composite_facts composite_undone_entry c)
qed

section \<open>Failures of undo and redo\<close>










section \<open>Undo followed by redo\<close>

text \<open>
  C6. The test ProvenanceCompositeSingle, followed by an undo and a redo. The stack
  pointer and the variables are the ones before the undo, but the last executed
  parameters of the commands that \<open>setAll\<close> invokes are not: the undo replays each child
  and stores the undo parameters of the child, and the redo replays the parent only, whose
  nested calls return from \<open>logExecution\<close> before the table is written. The table of
  \<open>set_i1\<close> holds 23 while \<open>i1\<close> is 78, so that a later \<open>set_i1(5)\<close> records 23 as the
  state before it and its undo sets \<open>i1\<close> to 23.
\<close>

theorem undo_redo_composite_last_exec:
  "returned (issueUndo test_lua_call composite_done) \<and>
   returned (issueRedo test_lua_call composite_undone) \<and>
   mStackPointer composite_done = 4 \<and> mStackPointer composite_redone = 4 \<and>
   globals (mScripting composite_done) = \<lparr>var_i1 = 78, var_s1 = ''Str Test'', var_b1 = False\<rparr> \<and>
   globals (mScripting composite_redone) = \<lparr>var_i1 = 78, var_s1 = ''Str Test'', var_b1 = False\<rparr> \<and>
   map_option lastExec (funTables (mScripting composite_done) ''set_i1'') = Some [LuaInt 78] \<and>
   map_option lastExec (funTables (mScripting composite_redone) ''set_i1'') = Some [LuaInt 23] \<and>
   var_i1 (globals (mScripting (state_of
     (andThen (exec ''set_i1'' [LuaInt 5] composite_redone) (issueUndo test_lua_call))))) = 23"
  by (intro conjI; code_simp)

section \<open>Disabling provenance\<close>

lemma setEnabled_False:
  "mEnabled s \<Longrightarrow>
   mUndoRedoStack (setEnabled False s) = [] \<and> mStackPointer (setEnabled False s) = 0 \<and>
   mProvenanceDescList (setEnabled False s) = mProvenanceDescList s \<and>
   issueUndo lc (setEnabled False s) = Throws LuaProvenanceInvalidUndo (setEnabled False s)"
  by (simp add: setEnabled_def clearProvenance_def issueUndo_def)

text \<open>
  C7. After \<open>set_i1(1)\<close> provenance is enabled and the provenance record holds one line.
  \<open>setEnabled(false)\<close> clears the undo/redo stack and resets the stack pointer, so that
  \<open>issueUndo\<close> throws \<open>LuaProvenanceInvalidUndo\<close>, but the provenance record still holds
  its line.
\<close>

theorem setEnabled_keeps_description_list:
  "mEnabled one_call \<and>
   mProvenanceDescList one_call = [''set_i1(1) - depth:0''] \<and>
   mProvenanceDescList (setEnabled False one_call) = [''set_i1(1) - depth:0''] \<and>
   mUndoRedoStack (setEnabled False one_call) = [] \<and>
   mStackPointer (setEnabled False one_call) = 0 \<and>
   thrown (issueUndo test_lua_call (setEnabled False one_call)) = Some LuaProvenanceInvalidUndo"
  by (intro conjI; code_simp)

section \<open>Suppression of the recording\<close>

text \<open>
  C8, as the claim states it, fails: the replay of \<open>issueUndo\<close> does not set
  \<open>mTemporarilyDisabled\<close>, and the call of \<open>logExecution\<close> that the replayed command makes
  merges text into the last line of the provenance record.
\<close>

theorem replay_merges_description_counterexample:
  "mProvenanceDescList one_call = [''set_i1(1) - depth:0''] \<and>
   returned (issueUndo test_lua_call one_call) \<and>
   mTemporarilyDisabled (state_of (issueUndo test_lua_call one_call)) = False \<and>
   mProvenanceDescList (state_of (issueUndo test_lua_call one_call)) =
     [''set_i1(1) - depth:0 -- Called: '' @ [CHR 0x22] @ ''set_i1(0) - depth:0'' @ [CHR 0x22]] \<and>
   mProvenanceDescList (state_of (logExecution formatParams ''set_i1'' False [LuaInt 0] []
       (one_call\<lparr>mUndoRedoProvenanceDisable := True\<rparr>))) =
     [''set_i1(1) - depth:0 -- Called: '' @ [CHR 0x22] @ ''set_i1(0) - depth:0'' @ [CHR 0x22]]"
  by (intro conjI; code_simp)

text \<open>
  C8, amended. While \<open>mTemporarilyDisabled\<close> is set (by \<open>setDisableProvTemporarily\<close>), a
  call of \<open>logExecution\<close> returns with no effect. A replay does not set that flag: it
  sets \<open>mUndoRedoProvenanceDisable\<close>. While that flag is set, a call of \<open>logExecution\<close>
  never changes the undo/redo stack or the stack pointer, whether it returns or throws.
  On a controller that is not temporarily disabled and not already logging, the call
  then merges the text \<open>-- Called: "name(params) - depth:d"\<close> into the last line of the
  provenance record when the record is enabled and not empty, and has no effect when the
  record is disabled. The case of an enabled and empty record is left out here.
\<close>

theorem logExecution_suppression:
  "(mTemporarilyDisabled s \<longrightarrow>
      logExecution fmt fname ex funParams emptyParams s = Returns s) \<and>
   (mUndoRedoProvenanceDisable s \<longrightarrow>
      same_undo_stack s (state_of (logExecution fmt fname ex funParams emptyParams s))) \<and>
   (\<not> mTemporarilyDisabled s \<and> \<not> mLoggingProvenance s \<and> mUndoRedoProvenanceDisable s \<and>
    mProvenanceDescLogEnabled s \<and> mProvenanceDescList s \<noteq> [] \<longrightarrow>
      logExecution fmt fname ex funParams emptyParams s =
        Returns (s\<lparr>mProvenanceDescList := butlast (mProvenanceDescList s) @
          [last (mProvenanceDescList s) @ '' -- Called: '' @ [CHR 0x22] @ fname @ ''('' @
             fmt funParams @ '')'' @ '' - depth:'' @ showInt (mCommandDepth s) @ [CHR 0x22]]\<rparr>)) \<and>
   (\<not> mTemporarilyDisabled s \<and> \<not> mLoggingProvenance s \<and> mUndoRedoProvenanceDisable s \<and>
    \<not> mProvenanceDescLogEnabled s \<longrightarrow>
      logExecution fmt fname ex funParams emptyParams s = Returns s)"
  by (simp add: logExecution_def logDescription_def ammendLastProvLog_def Let_def
      same_undo_stack_def)

theorem logExecution_suppression_witness:
  "logExecution formatParams ''set_i1'' False [LuaInt 0] [] (setDisableProvTemporarily True one_call)
     = Returns (setDisableProvTemporarily True one_call) \<and>
   logExecution formatParams ''set_i1'' False [LuaInt 0] [] (one_call\<lparr>mUndoRedoProvenanceDisable := True\<rparr>)
     = Returns (one_call\<lparr>mUndoRedoProvenanceDisable := True,
         mProvenanceDescList :=
           [''set_i1(1) - depth:0 -- Called: '' @ [CHR 0x22] @ ''set_i1(0) - depth:0'' @ [CHR 0x22]]\<rparr>)"
proof -
  have d: "showInt 0 = ''0''"
    by code_simp
  show ?thesis
    using logExecution_suppression [of "setDisableProvTemporarily True one_call" formatParams
        "''set_i1''" False "[LuaInt 0]" "[]"]
      logExecution_suppression [of "one_call\<lparr>mUndoRedoProvenanceDisable := True\<rparr>" formatParams
        "''set_i1''" False "[LuaInt 0]" "[]"]
    by (simp add: setDisableProvTemporarily_def one_call_facts d)
qed

section \<open>The flags after an operation\<close>

text \<open>
  C9. After \<open>open_file('a.dat')\<close> both flags are clear. The undo replays \<open>open_file('')\<close>,
  which throws; the exception leaves \<open>performUndoRedoOp\<close> between the two assignments
  around \<open>lua_call\<close>, and \<open>mUndoRedoProvenanceDisable\<close> is still set when \<open>issueUndo\<close> has
  thrown. The next command, \<open>set_i1(5)\<close>, is then taken for a replayed one and is not
  recorded on the stack.
\<close>

theorem issueUndo_leaves_replay_flag_set:
  "mUndoRedoProvenanceDisable file_opened = False \<and>
   mLoggingProvenance file_opened = False \<and>
   thrown (issueUndo test_lua_call file_opened) = Some LuaRuntimeError \<and>
   mUndoRedoProvenanceDisable (state_of (issueUndo test_lua_call file_opened)) = True \<and>
   returned (exec ''set_i1'' [LuaInt 5] (state_of (issueUndo test_lua_call file_opened))) \<and>
   mUndoRedoStack (state_of (exec ''set_i1'' [LuaInt 5] (state_of (issueUndo test_lua_call file_opened))))
     = mUndoRedoStack file_opened"
  by (intro conjI; code_simp)

section \<open>The assertion of ammendLastProvLog\<close>

text \<open>
  C10. After \<open>set_i1(1)\<close>, \<open>enableLogAll(false)\<close> and \<open>enableLogAll(true)\<close> the provenance
  record is enabled and empty, and the stack holds one entry. \<open>issueUndo\<close> replays
  \<open>set_i1(0)\<close>; the call of \<open>logExecution\<close> that the replayed command makes takes the
  branch that merges into the last line, and the assertion of \<open>ammendLastProvLog\<close> fails.
\<close>

theorem ammendLastProvLog_assertion_fails:
  "mProvenanceDescLogEnabled log_toggled = True \<and>
   mProvenanceDescList log_toggled = [] \<and>
   mStackPointer log_toggled = 1 \<and>
   thrown (logExecution formatParams ''set_i1'' False [LuaInt 0] []
             (log_toggled\<lparr>mUndoRedoProvenanceDisable := True\<rparr>)) = Some AssertionFailed \<and>
   thrown (issueUndo test_lua_call log_toggled) = Some AssertionFailed"
  by (intro conjI; code_simp)


section \<open>Further properties\<close>

text \<open>
  A new top-level command discards the redo history: after a call of \<open>logExecution\<close> at
  depth 0 that records an entry, the stack pointer is at the top of the stack and
  \<open>issueRedo\<close> throws \<open>LuaProvenanceInvalidRedo\<close>.
\<close>

theorem redo_after_new_command_fails:
  assumes "\<not> mTemporarilyDisabled s" "\<not> mLoggingProvenance s"
    and "\<not> mUndoRedoProvenanceDisable s"
    and "funTables (mScripting s) fname = Some funTable"
      "length (lastExec funTable) = length funParams"
    and "0 \<le> mStackPointer s" "mStackPointer s \<le> int (length (mUndoRedoStack s))"
    and "mCommandDepth s = 0"
  shows "\<exists>s'. logExecution fmt fname False funParams emptyParams s = Returns s' \<and>
     mStackPointer s' = int (length (mUndoRedoStack s')) \<and>
     issueRedo lc s' = Throws LuaProvenanceInvalidRedo s'"
proof -
  obtain l where u: "logExecution fmt fname False funParams emptyParams s =
      recordUndoRedoItem fname funParams emptyParams
        (s\<lparr>mLoggingProvenance := True, mProvenanceDescList := l,
           mUndoRedoStack := take (nat (mStackPointer s)) (mUndoRedoStack s)\<rparr>)"
    using logExecution_unfold [OF assms(1-3,6,7)] by blast
  have len: "length (take (nat (mStackPointer s)) (mUndoRedoStack s)) = nat (mStackPointer s)"
    using assms(6,7) by simp
  show ?thesis
    unfolding u using assms(4-8) len
    by (simp add: recordUndoRedoItem_def Let_def issueRedo_def)
qed

theorem redo_after_new_command_witness:
  "\<exists>s'. logExecution formatParams ''set_i1'' False [LuaInt 42] [] composite_undone = Returns s' \<and>
     mStackPointer s' = int (length (mUndoRedoStack s')) \<and>
     issueRedo test_lua_call s' = Throws LuaProvenanceInvalidRedo s'"
  using redo_after_new_command_fails [of composite_undone "''set_i1''" "registered ''set_i1'' [LuaInt 23]"
      "[LuaInt 42]" formatParams "[]" test_lua_call]
  by (simp add: composite_undone_facts registered_def)

text \<open>
  Undo followed by redo, when both return, leaves the stack and the stack pointer as they
  were, and the last executed parameters of the command of the entry are its redo
  parameters.
\<close>

lemma performUndoRedoOp_lastExec:
  assumes "performUndoRedoOp lc funcName params isUndo s = Returns t"
  shows "case funTables (mScripting t) funcName of
           None \<Rightarrow> True | Some tb \<Rightarrow> lastExec tb = params"
  using assms
  by (auto simp: performUndoRedoOp_def copyParamsToTable_def
        split: option.splits prod.splits outcome.splits
        elim!: andThen.elims)

theorem undo_then_redo_restores_stack:
  assumes "replay_keeps_stack lc"
    and "issueUndo lc s = Returns s1" and "issueRedo lc s1 = Returns s2"
  shows "mStackPointer s2 = mStackPointer s \<and> mUndoRedoStack s2 = mUndoRedoStack s \<and>
     (case funTables (mScripting s2) (function_name (mUndoRedoStack s ! nat (mStackPointer s - 1))) of
        None \<Rightarrow> True
      | Some tb \<Rightarrow> lastExec tb = redoParams (mUndoRedoStack s ! nat (mStackPointer s - 1)))"
proof -
  let ?e = "mUndoRedoStack s ! nat (mStackPointer s - 1)"
  have i1: "0 < mStackPointer s \<and> mStackPointer s \<le> int (length (mUndoRedoStack s))"
    by (rule issueUndo_Returns_index [OF assms(2)])
  let ?rs = "undoReplayOrder ?e"
  have k1: "same_undo_stack s (state_of (performReplays lc True ?rs s))"
    by (rule performReplays_keeps_stack [OF assms(1)])
  have a: "mStackPointer s1 = mStackPointer s - 1 \<and> mUndoRedoStack s1 = mUndoRedoStack s"
    using assms(2) i1 k1
    by (cases "performReplays lc True ?rs s")
       (auto simp: issueUndo_performReplays same_undo_stack_def split: if_splits)
  then have e1: "mUndoRedoStack s1 ! nat (mStackPointer s1) = ?e" by simp
  have i2: "0 \<le> mStackPointer s1 \<and> mStackPointer s1 < int (length (mUndoRedoStack s1))"
    by (rule issueRedo_Returns_index [OF assms(3)])
  let ?p = "performUndoRedoOp lc (function_name ?e) (redoParams ?e) False s1"
  have k2: "same_undo_stack s1 (state_of ?p)"
    by (rule performUndoRedoOp_keeps_stack [OF assms(1)])
  show ?thesis
  proof (cases ?p)
    case (Returns t)
    with assms(3) i2 e1 have s2: "s2 = t\<lparr>mStackPointer := mStackPointer t + 1\<rparr>"
      by (simp add: issueRedo_def Let_def)
    from performUndoRedoOp_lastExec [OF Returns] k2 Returns a show ?thesis
      by (simp add: s2 same_undo_stack_def)
  next
    case (Throws e t)
    with assms(3) i2 e1 show ?thesis
      by (simp add: issueRedo_def Let_def split: if_splits)
  qed
qed

theorem undo_then_redo_witness:
  "issueUndo test_lua_call composite_done = Returns composite_undone \<and>
   issueRedo test_lua_call composite_undone = Returns composite_redone \<and>
   mStackPointer composite_redone = mStackPointer composite_done \<and>
   mUndoRedoStack composite_redone = mUndoRedoStack composite_done \<and>
   map_option lastExec (funTables (mScripting composite_redone) ''setAll'') =
     Some [LuaInt 78, LuaString ''Str Test'', LuaBool False]"
proof -
  have u: "issueUndo test_lua_call composite_done = Returns composite_undone"
    unfolding composite_undone_def by (rule outcome_returned) (rule composite_facts)
  have r: "issueRedo test_lua_call composite_undone = Returns composite_redone"
    unfolding composite_redone_def by (rule outcome_returned) (rule composite_facts)
  have t: "funTables (mScripting composite_redone) ''setAll'' \<noteq> None"
    by code_simp
  from undo_then_redo_restores_stack [OF test_lua_call_keeps_stack u r] t
  show ?thesis
    by (auto simp: u r composite_facts split: option.splits)
qed

text \<open>
  A call of \<open>logExecution\<close> while a call of \<open>logExecution\<close> is in progress throws
  \<open>LuaProvenanceReenter\<close>, or returns with no effect when the reentry exception has been
  disabled.
\<close>

theorem logExecution_reentry:
  "(\<not> mTemporarilyDisabled s \<and> mLoggingProvenance s \<and> mDoProvReenterException s \<longrightarrow>
      logExecution fmt fname ex funParams emptyParams s = Throws LuaProvenanceReenter s) \<and>
   (\<not> mTemporarilyDisabled s \<and> mLoggingProvenance s \<and> \<not> mDoProvReenterException s \<longrightarrow>
      logExecution fmt fname ex funParams emptyParams s = Returns s)"
  by (simp add: logExecution_def)

theorem logExecution_reentry_witness:
  "logExecution formatParams ''set_i1'' False [LuaInt 2] [] (one_call\<lparr>mLoggingProvenance := True\<rparr>)
     = Throws LuaProvenanceReenter (one_call\<lparr>mLoggingProvenance := True\<rparr>) \<and>
   logExecution formatParams ''set_i1'' False [LuaInt 2] []
       (enableProvReentryEx False (one_call\<lparr>mLoggingProvenance := True\<rparr>))
     = Returns (enableProvReentryEx False (one_call\<lparr>mLoggingProvenance := True\<rparr>))"
proof -
  have f: "\<not> mTemporarilyDisabled one_call" "mDoProvReenterException one_call"
    by (code_simp+)
  show ?thesis
    using logExecution_reentry [of "one_call\<lparr>mLoggingProvenance := True\<rparr>" formatParams
        "''set_i1''" False "[LuaInt 2]" "[]"]
      logExecution_reentry [of "enableProvReentryEx False (one_call\<lparr>mLoggingProvenance := True\<rparr>)"
        formatParams "''set_i1''" False "[LuaInt 2]" "[]"]
    by (simp add: f enableProvReentryEx_def)
qed

text \<open>
  \<open>clearProvenance\<close> empties the undo/redo stack and resets the stack pointer; it leaves
  the provenance record alone. \<open>enableLogAll(false)\<close> empties the provenance record and
  leaves the stack and the stack pointer alone; \<open>enableLogAll(true)\<close> changes the switch
  only.
\<close>

theorem clearProvenance_and_enableLogAll:
  "mUndoRedoStack (clearProvenance s) = [] \<and> mStackPointer (clearProvenance s) = 0 \<and>
   mProvenanceDescList (clearProvenance s) = mProvenanceDescList s \<and>
   mProvenanceDescList (enableLogAll False s) = [] \<and>
   mUndoRedoStack (enableLogAll False s) = mUndoRedoStack s \<and>
   mStackPointer (enableLogAll False s) = mStackPointer s \<and>
   enableLogAll True s = s\<lparr>mProvenanceDescLogEnabled := True\<rparr>"
  by (simp add: clearProvenance_def enableLogAll_def)

text \<open>
  The test ProvenanceStaticTests: after \<open>set_i1(23)\<close>, \<open>set_s1('Test String')\<close> and
  \<open>set_b1(true)\<close> the variables hold these values; an undo resets \<open>b1\<close>, a second undo
  resets \<open>s1\<close> to its default \<open>nop\<close>, a redo sets \<open>s1\<close> again, an undo resets it, and a
  last undo resets \<open>i1\<close> to 0.
\<close>

theorem ProvenanceStaticTests_pass:
  "(let u1 = state_of (issueUndo test_lua_call static_done);
        u2 = state_of (issueUndo test_lua_call u1);
        r1 = state_of (issueRedo test_lua_call u2);
        u3 = state_of (issueUndo test_lua_call r1);
        u4 = state_of (issueUndo test_lua_call u3)
    in globals (mScripting static_done) = \<lparr>var_i1 = 23, var_s1 = ''Test String'', var_b1 = True\<rparr> \<and>
       var_b1 (globals (mScripting u1)) = False \<and>
       var_s1 (globals (mScripting u2)) = ''nop'' \<and>
       var_s1 (globals (mScripting r1)) = ''Test String'' \<and>
       var_s1 (globals (mScripting u3)) = ''nop'' \<and>
       var_i1 (globals (mScripting u4)) = 0 \<and>
       returned (issueUndo test_lua_call static_done) \<and>
       returned (issueUndo test_lua_call u1) \<and>
       returned (issueRedo test_lua_call u2) \<and>
       returned (issueUndo test_lua_call r1) \<and>
       returned (issueUndo test_lua_call u3) \<and>
       thrown (issueUndo test_lua_call u4) = Some LuaProvenanceInvalidUndo)"
  by code_simp

end
